theory Spec2Isabelle
  imports Main
begin

section \<open>The extension module \<open>hello.c\<close>\<close>

text \<open>
  \<open>hello.c\<close> is a CPython extension module: one C function, \<open>hello\<close>, a method table
  \<open>HelloMethods\<close>, a module definition \<open>hellomodule\<close> and the initialisation function
  \<open>PyInit_hello\<close>. Everything the file does goes through the CPython C API:
  \<open>PyUnicode_FromString\<close>, \<open>PyModule_Create\<close>, \<open>METH_NOARGS\<close>, \<open>PyModuleDef_HEAD_INIT\<close> and
  the structure types \<open>PyMethodDef\<close> and \<open>PyModuleDef\<close>. The interpreter is not part of the
  repository, so the fragment of the C API that the file uses is modelled first, after the
  C API reference manual and the interpreter's behaviour; what depends on the interpreter
  build (how much memory an object takes) is a parameter. The definitions of \<open>hello.c\<close>
  itself follow and are translated line by line.
\<close>

subsection \<open>The fragment of the CPython C API used by the module\<close>

text \<open>
  A \<open>PyObject*\<close> is an address into the object heap, or \<open>NULL\<close> (\<open>None\<close>). An API function
  that returns \<open>NULL\<close> with the error indicator set raises the exception the indicator
  names: such a return is the value \<open>Inl e\<close>, a new reference is \<open>Inr p\<close>. The exception
  object belongs to the error indicator, hence to the result, and not to the heap. The last
  two values of \<open>error\<close> are not exceptions: they mark behaviour that C leaves undefined
  (reading an array past its end, leaving a function without a return value).
\<close>

type_synonym addr = nat

datatype error =
    MemoryError | UnicodeDecodeError | TypeError | AttributeError | RecursionError
  | OutOfBounds | MissingReturn

text \<open>
  A C function pointer is the address of a function of the translation unit. \<open>hello.c\<close>
  takes the address of one function only.
\<close>

datatype cfunc = HELLO

text \<open>\<open>struct PyMethodDef { const char *ml_name; PyCFunction ml_meth; int ml_flags;
  const char *ml_doc; }\<close>, the pointers being \<open>NULL\<close> when \<open>None\<close>.\<close>

record PyMethodDef =
  ml_name :: "string option"
  ml_meth :: "cfunc option"
  ml_flags :: int
  ml_doc :: "string option"

text \<open>
  \<open>struct PyModuleDef_Base\<close>, the header of a module definition, without its reference
  count (reference counts are not modelled): the type pointer, \<open>m_init\<close>, \<open>m_index\<close> and
  \<open>m_copy\<close>. The macro \<open>PyModuleDef_HEAD_INIT\<close> of \<open>moduleobject.h\<close> is the header with all
  of them zero.
\<close>

datatype pytype = PyModuleDef_Type

record PyModuleDef_Base =
  ob_type :: "pytype option"
  m_init :: "cfunc option"
  m_index :: nat
  m_copy :: "addr option"

definition PyModuleDef_HEAD_INIT :: PyModuleDef_Base where
  "PyModuleDef_HEAD_INIT = \<lparr>ob_type = None, m_init = None, m_index = 0, m_copy = None\<rparr>"

text \<open>
  \<open>struct PyModuleDef\<close> up to \<open>m_methods\<close>. The fields after it (\<open>m_slots\<close>, \<open>m_traverse\<close>,
  \<open>m_clear\<close>, \<open>m_free\<close>) are not named by the initialiser in \<open>hello.c\<close>, hence \<open>NULL\<close>.
\<close>

record PyModuleDef =
  m_base :: PyModuleDef_Base
  m_name :: string
  m_doc :: "string option"
  m_size :: int
  m_methods :: "PyMethodDef list option"

text \<open>
  A value stored in a dictionary is a reference to a heap object or to the singleton
  \<open>None\<close>, which is allocated statically.
\<close>

datatype pyref = Obj addr | NoneObj

text \<open>
  The objects the module creates: a \<open>str\<close> (its code points), a built-in function (the
  method definition it was made from and the \<open>self\<close> it is bound to) and a module (its
  name, its attribute dictionary in insertion order, and the size of its per-module state
  block, \<open>None\<close> when \<open>md_state\<close> is \<open>NULL\<close>).
\<close>

datatype pyobject =
    PyUnicode "nat list"
  | PyCFunction PyMethodDef "addr option"
  | PyModule string "(string \<times> pyref) list" "nat option"

text \<open>
  The state of the process: the object heap (an object's address is its index), the number
  of objects the allocator can still provide, and \<open>world\<close>, which stands for every other
  part of the program state (C globals, open files, I/O channels). No definition below
  mentions \<open>world\<close> except to pass it on.
\<close>

record 'w pystate =
  heap :: "pyobject list"
  mem_free :: nat
  world :: 'w

type_synonym 'w result = "(error + addr) \<times> 'w pystate"

text \<open>Allocation of one object; \<open>None\<close> when memory is exhausted.\<close>

definition py_alloc :: "pyobject \<Rightarrow> 'w pystate \<Rightarrow> (addr \<times> 'w pystate) option" where
  "py_alloc obj st =
     (if mem_free st = 0 then None
      else Some (length (heap st),
                 st\<lparr>heap := heap st @ [obj], mem_free := mem_free st - 1\<rparr>))"

text \<open>
  Strict UTF-8 decoding of a byte sequence into code points, as \<open>PyUnicode_FromString\<close>
  performs it: continuation bytes are \<open>0x80..0xBF\<close>; overlong forms, surrogates and code
  points above \<open>0x10FFFF\<close> are errors.
\<close>

definition is_cont :: "nat \<Rightarrow> bool" where
  "is_cont b = (128 \<le> b \<and> b < 192)"

fun utf8_decode :: "nat list \<Rightarrow> nat list option" where
  "utf8_decode [] = Some []"
| "utf8_decode (b # bs) =
     (if b < 128 then map_option ((#) b) (utf8_decode bs)
      else if 194 \<le> b \<and> b < 224 then
        (case bs of
           c1 # r \<Rightarrow>
             if is_cont c1
             then map_option ((#) ((b - 192) * 64 + (c1 - 128))) (utf8_decode r)
             else None
         | _ \<Rightarrow> None)
      else if 224 \<le> b \<and> b < 240 then
        (case bs of
           c1 # c2 # r \<Rightarrow>
             let cp = (b - 224) * 4096 + (c1 - 128) * 64 + (c2 - 128) in
             if is_cont c1 \<and> is_cont c2 \<and> 2048 \<le> cp \<and> \<not> (55296 \<le> cp \<and> cp < 57344)
             then map_option ((#) cp) (utf8_decode r)
             else None
         | _ \<Rightarrow> None)
      else if 240 \<le> b \<and> b < 245 then
        (case bs of
           c1 # c2 # c3 # r \<Rightarrow>
             let cp = (b - 240) * 262144 + (c1 - 128) * 4096 + (c2 - 128) * 64 + (c3 - 128) in
             if is_cont c1 \<and> is_cont c2 \<and> is_cont c3 \<and> 65536 \<le> cp \<and> cp \<le> 1114111
             then map_option ((#) cp) (utf8_decode r)
             else None
         | _ \<Rightarrow> None)
      else None)"

text \<open>
  \<open>PyObject *PyUnicode_FromString(const char *u)\<close>: a new \<open>str\<close> object decoded from the
  UTF-8 bytes of the C string \<open>u\<close> (its bytes before the terminating NUL). It raises
  \<open>UnicodeDecodeError\<close> on bytes that are not UTF-8 and \<open>MemoryError\<close> when the object
  cannot be allocated; in both cases nothing has been created.
\<close>

definition PyUnicode_FromString :: "string \<Rightarrow> 'w pystate \<Rightarrow> 'w result" where
  "PyUnicode_FromString u st =
     (case utf8_decode (map of_char u) of
        None \<Rightarrow> (Inl UnicodeDecodeError, st)
      | Some cps \<Rightarrow>
          (case py_alloc (PyUnicode cps) st of
             None \<Rightarrow> (Inl MemoryError, st)
           | Some (p, st') \<Rightarrow> (Inr p, st')))"

text \<open>
  How many allocator blocks the interpreter needs for the objects below is a property of
  the interpreter build, not of \<open>hello.c\<close>. These numbers are parameters: a module object
  with its dictionary, a built-in function with the name it is stored under, and an
  exception other than \<open>MemoryError\<close> (which is preallocated). Every statement below
  holds for all values of them.
\<close>

record pyhost =
  module_blocks :: nat
  function_blocks :: nat
  exception_blocks :: nat

definition py_alloc_blocks ::
  "nat \<Rightarrow> pyobject \<Rightarrow> 'w pystate \<Rightarrow> (addr \<times> 'w pystate) option" where
  "py_alloc_blocks k obj st =
     (if mem_free st < k then None
      else Some (length (heap st),
                 st\<lparr>heap := heap st @ [obj], mem_free := mem_free st - k\<rparr>))"


text \<open>
  Setting an attribute of a module stores the value in the module's dictionary, replacing
  an earlier binding of the same name. Any other target is left alone.
\<close>

fun dict_set :: "string \<Rightarrow> pyref \<Rightarrow> (string \<times> pyref) list \<Rightarrow> (string \<times> pyref) list" where
  "dict_set k v [] = [(k, v)]"
| "dict_set k v ((k', v') # d) = (if k = k' then (k, v) # d else (k', v') # dict_set k v d)"

definition module_setattr :: "addr \<Rightarrow> string \<Rightarrow> pyref \<Rightarrow> 'w pystate \<Rightarrow> 'w pystate" where
  "module_setattr m name v st =
     (if m < length (heap st) then
        (case heap st ! m of
           PyModule n d s \<Rightarrow> st\<lparr>heap := (heap st)[m := PyModule n (dict_set name v d) s]\<rparr>
         | _ \<Rightarrow> st)
      else st)"

text \<open>
  \<open>PyModule_New(name)\<close>: the name as a \<open>str\<close> object, then the module object, whose
  dictionary starts with the five attributes every module has: \<open>__name__\<close>, bound to the
  name, and \<open>__doc__\<close>, \<open>__package__\<close>, \<open>__loader__\<close>, \<open>__spec__\<close>, bound to \<open>None\<close>. When
  the module cannot be allocated the name is released again.
\<close>

definition PyModule_New :: "pyhost \<Rightarrow> string \<Rightarrow> 'w pystate \<Rightarrow> 'w result" where
  "PyModule_New host name st =
     (case PyUnicode_FromString name st of
        (Inl e, _) \<Rightarrow> (Inl e, st)
      | (Inr n, st1) \<Rightarrow>
          (case py_alloc_blocks (module_blocks host)
                  (PyModule name
                     [(''__name__'', Obj n), (''__doc__'', NoneObj), (''__package__'', NoneObj),
                      (''__loader__'', NoneObj), (''__spec__'', NoneObj)]
                     None) st1 of
             None \<Rightarrow> (Inl MemoryError, st)
           | Some (m, st2) \<Rightarrow> (Inr m, st2)))"

text \<open>The state block of a module with a positive \<open>m_size\<close>: one more allocation.\<close>

definition module_alloc_state :: "addr \<Rightarrow> nat \<Rightarrow> 'w pystate \<Rightarrow> 'w pystate option" where
  "module_alloc_state m n_bytes st =
     (if mem_free st = 0 \<or> length (heap st) \<le> m then None
      else Some (st\<lparr>heap := (heap st)[m := (case heap st ! m of
                                                PyModule n d s \<Rightarrow> PyModule n d (Some n_bytes)
                                              | obj \<Rightarrow> obj)],
                    mem_free := mem_free st - 1\<rparr>))"

text \<open>
  \<open>PyModule_AddFunctions(module, functions)\<close> walks the array until the entry whose
  \<open>ml_name\<close> is \<open>NULL\<close> (the sentinel), and for each entry before it creates a built-in
  function bound to the module and stores it under \<open>ml_name\<close>. An array without a sentinel
  is read past its end, which is undefined in C: the outcome \<open>OutOfBounds\<close>.
\<close>

fun PyModule_AddFunctions ::
  "pyhost \<Rightarrow> addr \<Rightarrow> PyMethodDef list \<Rightarrow> 'w pystate \<Rightarrow> (error + unit) \<times> 'w pystate" where
  "PyModule_AddFunctions host m [] st = (Inl OutOfBounds, st)"
| "PyModule_AddFunctions host m (ml # mls) st =
     (case ml_name ml of
        None \<Rightarrow> (Inr (), st)
      | Some name \<Rightarrow>
          (case py_alloc_blocks (function_blocks host) (PyCFunction ml (Some m)) st of
             None \<Rightarrow> (Inl MemoryError, st)
           | Some (f, st1) \<Rightarrow>
               PyModule_AddFunctions host m mls (module_setattr m name (Obj f) st1)))"

text \<open>
  Besides the heap, module creation reads and writes three variables: the module
  definition it is given a pointer to (in \<open>hello.c\<close> there is one, the static variable
  \<open>hellomodule\<close>), the interpreter's counter of module indices, and the package context,
  in which the import machinery leaves the full dotted name of the extension module it is
  loading. They are kept beside the process state \<open>mem\<close>, on which the C function \<open>hello\<close>
  works: its body names none of them.
\<close>

record 'w pyruntime =
  mem :: "'w pystate"
  hellomodule_var :: PyModuleDef
  last_module_index :: nat
  package_context :: "string option"

datatype defptr = ADDR_hellomodule

fun load_def :: "defptr \<Rightarrow> 'w pyruntime \<Rightarrow> PyModuleDef" where
  "load_def ADDR_hellomodule rt = hellomodule_var rt"

fun store_def :: "defptr \<Rightarrow> PyModuleDef \<Rightarrow> 'w pyruntime \<Rightarrow> 'w pyruntime" where
  "store_def ADDR_hellomodule d rt = rt\<lparr>hellomodule_var := d\<rparr>"

text \<open>
  \<open>PyModuleDef_Init(def)\<close>: a definition whose \<open>m_index\<close> is still zero gets its type
  pointer and the next module index, written into its header.
\<close>

definition PyModuleDef_Init :: "defptr \<Rightarrow> 'w pyruntime \<Rightarrow> 'w pyruntime" where
  "PyModuleDef_Init p rt =
     (let d = load_def p rt in
      if m_index (m_base d) = 0 then
        store_def p
          (d\<lparr>m_base := (m_base d)\<lparr>ob_type := Some PyModuleDef_Type,
                                     m_index := last_module_index rt + 1\<rparr>\<rparr>)
          (rt\<lparr>last_module_index := last_module_index rt + 1\<rparr>)
      else rt)"

text \<open>
  The name a new module gets: when the package context has a dot and what follows its last
  dot is the definition's name, the module is created under the whole package context, and
  the context is cleared; otherwise under the definition's name.
\<close>

definition resolve_package_context :: "string \<Rightarrow> 'w pyruntime \<Rightarrow> string \<times> 'w pyruntime" where
  "resolve_package_context name rt =
     (case package_context rt of
        None \<Rightarrow> (name, rt)
      | Some ctx \<Rightarrow>
          if CHR ''.'' \<in> set ctx \<and> rev (takeWhile (\<lambda>c. c \<noteq> CHR ''.'') (rev ctx)) = name
          then (ctx, rt\<lparr>package_context := None\<rparr>)
          else (name, rt))"

text \<open>
  \<open>PyModule_Create(def)\<close>: initialise the definition's header, resolve the name, create
  the module, allocate a state block only when \<open>m_size\<close> is positive, add the functions of
  \<open>m_methods\<close> and the docstring \<open>m_doc\<close> when these are not \<open>NULL\<close>. On a failure the
  module and what was made for it are released and the error is returned: the heap is the
  one before the call, the writes to the header and to the package context stay. (The
  refusal of a definition with \<open>m_slots\<close> does not arise, \<open>m_slots\<close> being \<open>NULL\<close> in every
  definition of this record; the module's back pointer \<open>md_def\<close> is not modelled, there
  being one definition.)
\<close>

definition PyModule_Create ::
  "pyhost \<Rightarrow> defptr \<Rightarrow> 'w pyruntime \<Rightarrow> (error + addr) \<times> 'w pyruntime" where
  "PyModule_Create host p rt =
     (let rt1 = PyModuleDef_Init p rt;
          def = load_def p rt1;
          (name, rt2) = resolve_package_context (m_name def) rt1
      in
        (case PyModule_New host name (mem rt2) of
           (Inl e, _) \<Rightarrow> (Inl e, rt2)
         | (Inr m, st1) \<Rightarrow>
             (case (if 0 < m_size def then module_alloc_state m (nat (m_size def)) st1
                    else Some st1) of
                None \<Rightarrow> (Inl MemoryError, rt2)
              | Some st2 \<Rightarrow>
                  (case (case m_methods def of
                           None \<Rightarrow> (Inr (), st2)
                         | Some mls \<Rightarrow> PyModule_AddFunctions host m mls st2) of
                     (Inl e, _) \<Rightarrow> (Inl e, rt2)
                   | (Inr _, st3) \<Rightarrow>
                       (case m_doc def of
                          None \<Rightarrow> (Inr m, rt2\<lparr>mem := st3\<rparr>)
                        | Some doc \<Rightarrow>
                            (case PyUnicode_FromString doc st3 of
                               (Inl e, _) \<Rightarrow> (Inl e, rt2)
                             | (Inr d, st4) \<Rightarrow>
                                 (Inr m,
                                  rt2\<lparr>mem := module_setattr m ''__doc__'' (Obj d) st4\<rparr>)))))))"


text \<open>The calling-convention flag of \<open>methodobject.h\<close> for functions without parameters.\<close>

definition METH_NOARGS :: int where
  "METH_NOARGS = 4"


subsection \<open>The statements of a C function body\<close>

text \<open>
  The fragment of C in which the body of a function of type \<open>PyCFunction\<close> is written
  here: a call of \<open>PyUnicode_FromString\<close> on a string literal, a call of a function of the
  translation unit on \<open>NULL\<close> or on the caller's own parameters, \<open>return\<close>, an expression
  statement, sequencing and \<open>while\<close> (whose condition holds when it is not \<open>NULL\<close>).
\<close>

datatype carg = ArgNull | ArgSelf | ArgArgs

datatype cexpr = Call_PyUnicode_FromString string | CallFn cfunc carg carg

datatype cstmt = Return cexpr | ExprStmt cexpr | Seq cstmt cstmt | While cexpr cstmt

fun eval_arg :: "carg \<Rightarrow> addr option \<Rightarrow> addr option \<Rightarrow> addr option" where
  "eval_arg ArgNull self args = None"
| "eval_arg ArgSelf self args = self"
| "eval_arg ArgArgs self args = args"

text \<open>
  Execution with fuel: entering a function body and starting another iteration of a loop
  take one unit each, and the result is \<open>None\<close> when the fuel runs out, so that a body that
  loops or recurses for ever has the result \<open>None\<close> for every amount of fuel. A call of the
  API function is one step. A statement yields \<open>Some r\<close> when it returns \<open>r\<close> and \<open>None\<close>
  when control passes to the next statement.
\<close>

fun eval ::
    "(cfunc \<Rightarrow> cstmt) \<Rightarrow> nat \<Rightarrow> addr option \<Rightarrow> addr option \<Rightarrow> cexpr \<Rightarrow> 'w pystate \<Rightarrow>
     'w result option"
  and exec ::
    "(cfunc \<Rightarrow> cstmt) \<Rightarrow> nat \<Rightarrow> addr option \<Rightarrow> addr option \<Rightarrow> cstmt \<Rightarrow> 'w pystate \<Rightarrow>
     ((error + addr) option \<times> 'w pystate) option"
where
  "eval bodies fuel self args (Call_PyUnicode_FromString u) st =
     Some (PyUnicode_FromString u st)"
| "eval bodies 0 self args (CallFn f a b) st = None"
| "eval bodies (Suc fuel) self args (CallFn f a b) st =
     (case exec bodies fuel (eval_arg a self args) (eval_arg b self args) (bodies f) st of
        None \<Rightarrow> None
      | Some (Some r, st') \<Rightarrow> Some (r, st')
      | Some (None, st') \<Rightarrow> Some (Inl MissingReturn, st'))"
| "exec bodies fuel self args (Return e) st =
     (case eval bodies fuel self args e st of
        None \<Rightarrow> None
      | Some (r, st') \<Rightarrow> Some (Some r, st'))"
| "exec bodies fuel self args (ExprStmt e) st =
     (case eval bodies fuel self args e st of
        None \<Rightarrow> None
      | Some (r, st') \<Rightarrow> Some (None, st'))"
| "exec bodies fuel self args (Seq s1 s2) st =
     (case exec bodies fuel self args s1 st of
        None \<Rightarrow> None
      | Some (Some r, st') \<Rightarrow> Some (Some r, st')
      | Some (None, st') \<Rightarrow> exec bodies fuel self args s2 st')"
| "exec bodies 0 self args (While c s) st = None"
| "exec bodies (Suc fuel) self args (While c s) st =
     (case eval bodies (Suc fuel) self args c st of
        None \<Rightarrow> None
      | Some (Inl e, st') \<Rightarrow> Some (None, st')
      | Some (Inr p, st') \<Rightarrow>
          (case exec bodies (Suc fuel) self args s st' of
             None \<Rightarrow> None
           | Some (Some r, st'') \<Rightarrow> Some (Some r, st'')
           | Some (None, st'') \<Rightarrow> exec bodies fuel self args (While c s) st''))"

text \<open>
  Running a function of the translation unit from outside, as the interpreter does: enter
  its body with the given \<open>self\<close> and \<open>args\<close>.
\<close>

definition run ::
  "(cfunc \<Rightarrow> cstmt) \<Rightarrow> nat \<Rightarrow> cfunc \<Rightarrow> addr option \<Rightarrow> addr option \<Rightarrow> 'w pystate \<Rightarrow>
   'w result option" where
  "run bodies fuel f self args st =
     (case fuel of
        0 \<Rightarrow> None
      | Suc n \<Rightarrow>
          (case exec bodies n self args (bodies f) st of
             None \<Rightarrow> None
           | Some (Some r, st') \<Rightarrow> Some (r, st')
           | Some (None, st') \<Rightarrow> Some (Inl MissingReturn, st')))"

text \<open>What the claims about the shape of a body refer to: its loops and its calls.\<close>

fun loop_free :: "cstmt \<Rightarrow> bool" where
  "loop_free (Return e) = True"
| "loop_free (ExprStmt e) = True"
| "loop_free (Seq s1 s2) = (loop_free s1 \<and> loop_free s2)"
| "loop_free (While c s) = False"

fun expr_calls :: "cexpr \<Rightarrow> cfunc list" where
  "expr_calls (Call_PyUnicode_FromString u) = []"
| "expr_calls (CallFn f a b) = [f]"

fun stmt_calls :: "cstmt \<Rightarrow> cfunc list" where
  "stmt_calls (Return e) = expr_calls e"
| "stmt_calls (ExprStmt e) = expr_calls e"
| "stmt_calls (Seq s1 s2) = stmt_calls s1 @ stmt_calls s2"
| "stmt_calls (While c s) = expr_calls c @ stmt_calls s"

fun expr_api_calls :: "cexpr \<Rightarrow> nat" where
  "expr_api_calls (Call_PyUnicode_FromString u) = 1"
| "expr_api_calls (CallFn f a b) = 0"

fun stmt_api_calls :: "cstmt \<Rightarrow> nat" where
  "stmt_api_calls (Return e) = expr_api_calls e"
| "stmt_api_calls (ExprStmt e) = expr_api_calls e"
| "stmt_api_calls (Seq s1 s2) = stmt_api_calls s1 + stmt_api_calls s2"
| "stmt_api_calls (While c s) = expr_api_calls c + stmt_api_calls s"

subsection \<open>The definitions of \<open>hello.c\<close>\<close>

text \<open>
  \<^verbatim>\<open>static PyObject* hello(PyObject* self, PyObject* args) {
    return PyUnicode_FromString("Hello World!");
}\<close>
  As a function of the state, and as the statement that is its body.
\<close>

definition hello :: "addr option \<Rightarrow> addr option \<Rightarrow> 'w pystate \<Rightarrow> 'w result" where
  "hello self args st = PyUnicode_FromString ''Hello World!'' st"

definition hello_body :: cstmt where
  "hello_body = Return (Call_PyUnicode_FromString ''Hello World!'')"

fun body_of :: "cfunc \<Rightarrow> cstmt" where
  "body_of HELLO = hello_body"

text \<open>
  \<^verbatim>\<open>static PyMethodDef HelloMethods[] = {
    {"hello", hello, METH_NOARGS, "Returns a greeting."},
    {NULL, NULL, 0, NULL}
};\<close>
\<close>

definition HelloMethods :: "PyMethodDef list" where
  "HelloMethods =
     [\<lparr>ml_name = Some ''hello'', ml_meth = Some HELLO, ml_flags = METH_NOARGS,
       ml_doc = Some ''Returns a greeting.''\<rparr>,
      \<lparr>ml_name = None, ml_meth = None, ml_flags = 0, ml_doc = None\<rparr>]"

text \<open>
  \<^verbatim>\<open>static struct PyModuleDef hellomodule = {
    PyModuleDef_HEAD_INIT,
    "hello",    // name of module
    NULL,       // module documentation
    -1,         // size of per-interpreter state of the module
    HelloMethods
};\<close>
  This is the value the variable is initialised with; its current value is
  \<open>hellomodule_var\<close> of the state.
\<close>

definition hellomodule :: PyModuleDef where
  "hellomodule =
     \<lparr>m_base = PyModuleDef_HEAD_INIT, m_name = ''hello'', m_doc = None, m_size = - 1,
      m_methods = Some HelloMethods\<rparr>"

text \<open>
  \<^verbatim>\<open>PyMODINIT_FUNC PyInit_hello(void) {
    return PyModule_Create(&hellomodule);
}\<close>
\<close>

definition PyInit_hello :: "pyhost \<Rightarrow> 'w pyruntime \<Rightarrow> (error + addr) \<times> 'w pyruntime" where
  "PyInit_hello host rt = PyModule_Create host ADDR_hellomodule rt"

text \<open>Calling through a function pointer runs the function it points to.\<close>

fun call_cfunc :: "cfunc \<Rightarrow> addr option \<Rightarrow> addr option \<Rightarrow> 'w pystate \<Rightarrow> 'w result" where
  "call_cfunc HELLO self args st = hello self args st"

subsection \<open>Observations\<close>

text \<open>A caller that invokes the same operation \<open>n\<close> times in a row and keeps every result.\<close>

fun repeat_call :: "nat \<Rightarrow> ('s \<Rightarrow> 'r \<times> 's) \<Rightarrow> 's \<Rightarrow> 'r list \<times> 's" where
  "repeat_call 0 f st = ([], st)"
| "repeat_call (Suc n) f st =
     (case f st of (r, st1) \<Rightarrow> (case repeat_call n f st1 of (rs, st2) \<Rightarrow> (r # rs, st2)))"

text \<open>The names under which a module holds built-in functions.\<close>

definition is_builtin :: "'w pystate \<Rightarrow> pyref \<Rightarrow> bool" where
  "is_builtin st v =
     (case v of
        NoneObj \<Rightarrow> False
      | Obj a \<Rightarrow>
          a < length (heap st) \<and>
          (case heap st ! a of PyCFunction ml self \<Rightarrow> True | _ \<Rightarrow> False))"

definition module_callables :: "addr \<Rightarrow> 'w pystate \<Rightarrow> string list" where
  "module_callables m st =
     (if m < length (heap st) then
        (case heap st ! m of
           PyModule n d s \<Rightarrow> map fst (filter (\<lambda>kv. is_builtin st (snd kv)) d)
         | _ \<Rightarrow> [])
      else [])"

text \<open>
  States for the examples: an interpreter build, a process that has allocated nothing yet,
  has \<open>n\<close> free blocks and is about to load the extension under package context \<open>ctx\<close>,
  and the heap as it is once the extension has been loaded as a top-level module.
\<close>

definition example_host :: pyhost where
  "example_host = \<lparr>module_blocks = 3, function_blocks = 1, exception_blocks = 2\<rparr>"

definition fresh_runtime :: "nat \<Rightarrow> string option \<Rightarrow> unit pyruntime" where
  "fresh_runtime n ctx =
     \<lparr>mem = \<lparr>heap = [], mem_free = n, world = ()\<rparr>, hellomodule_var = hellomodule,
      last_module_index = 0, package_context = ctx\<rparr>"

definition loaded_state :: "nat \<Rightarrow> unit pystate" where
  "loaded_state n =
     \<lparr>heap = [PyUnicode (map of_char ''hello''),
              PyModule ''hello''
                [(''__name__'', Obj 0), (''__doc__'', NoneObj), (''__package__'', NoneObj),
                 (''__loader__'', NoneObj), (''__spec__'', NoneObj), (''hello'', Obj 2)] None,
              PyCFunction (hd HelloMethods) (Some 1)],
      mem_free = n, world = ()\<rparr>"

subsection \<open>The greeting\<close>

text \<open>
  The \<open>str\<close> object \<open>"Hello World!"\<close>: the code points of the twelve characters of the
  literal, which is what the claims compare the result of \<open>hello\<close> with.
\<close>

definition greeting :: pyobject where
  "greeting = PyUnicode (map of_char ''Hello World!'')"

section \<open>Properties\<close>

subsection \<open>What one call computes\<close>

lemma greeting_bytes:
  "map of_char ''Hello World!'' = [72, 101, 108, 108, 111, 32, 87, 111, 114, 108, 100, 33 :: nat]"
  by simp

text \<open>The literal is ASCII, so decoding it cannot fail and yields its own bytes.\<close>

lemma greeting_decode:
  "utf8_decode (map of_char ''Hello World!'') = Some (map of_char ''Hello World!'')"
  by simp

text \<open>The decoder on ASCII, on multi-byte sequences and on malformed input.\<close>

lemma utf8_decode_ascii: "\<forall>b \<in> set bs. b < 128 \<Longrightarrow> utf8_decode bs = Some bs"
  by (induction bs) simp_all

lemma utf8_decode_examples:
  "utf8_decode [206, 187, 226, 130, 172, 240, 159, 152, 128] = Some [955, 8364, 128512]"
  "utf8_decode [192, 128] = None"
  "utf8_decode [237, 160, 128] = None"
  "utf8_decode [72, 255] = None"
  by (simp_all add: is_cont_def)

lemma py_alloc_None: "(py_alloc obj st = None) = (mem_free st = 0)"
  by (simp add: py_alloc_def)

lemma hello_eq:
  "hello self args st =
     (if mem_free st = 0 then (Inl MemoryError, st)
      else (Inr (length (heap st)),
            st\<lparr>heap := heap st @ [greeting], mem_free := mem_free st - 1\<rparr>))"
  unfolding hello_def PyUnicode_FromString_def greeting_decode
  by (simp add: py_alloc_def greeting_def)

text \<open>
  \<open>n\<close> calls in a row, with memory for \<open>n\<close> objects: the results are the \<open>n\<close> fresh
  addresses, in order, and each of them holds the greeting.
\<close>

lemma repeat_call_hello:
  "n \<le> mem_free st \<Longrightarrow>
   repeat_call n (hello self args) st =
     (map Inr [length (heap st) ..< length (heap st) + n],
      st\<lparr>heap := heap st @ replicate n greeting, mem_free := mem_free st - n\<rparr>)"
proof (induction n arbitrary: st)
  case 0
  then show ?case by simp
next
  case (Suc n)
  let ?st1 = "st\<lparr>heap := heap st @ [greeting], mem_free := mem_free st - 1\<rparr>"
  from Suc.prems have pos: "mem_free st \<noteq> 0" and le: "n \<le> mem_free ?st1" by simp_all
  have step: "hello self args st = (Inr (length (heap st)), ?st1)"
    using pos by (simp add: hello_eq)
  have "repeat_call (Suc n) (hello self args) st =
          (Inr (length (heap st)) # fst (repeat_call n (hello self args) ?st1),
           snd (repeat_call n (hello self args) ?st1))"
    by (simp add: step split: prod.splits)
  also have "\<dots> = (map Inr [length (heap st) ..< length (heap st) + Suc n],
      st\<lparr>heap := heap st @ replicate (Suc n) greeting, mem_free := mem_free st - Suc n\<rparr>)"
    unfolding Suc.IH [OF le]
    by (simp add: upt_conv_Cons replicate_app_Cons_same del: upt_Suc)
  finally show ?case .
qed

subsection \<open>The returned value\<close>

text \<open>
  Claim C1, as amended. The claim says that every invocation of \<open>hello\<close> returns exactly the
  string \<open>"Hello World!"\<close>. An invocation whose allocation fails returns \<open>NULL\<close> instead
  (\<open>hello_exhausted_counterexample\<close> below). For every invocation in which the allocator
  has memory left, and for all arguments, \<open>hello\<close> returns a reference to a \<open>str\<close> object
  whose contents are exactly the twelve code points
  \<open>H e l l o (space) W o r l d !\<close>, with nothing after the \<open>!\<close>.
\<close>

theorem hello_returns_greeting:
  assumes "0 < mem_free st"
  shows "\<exists>p st'. hello self args st = (Inr p, st') \<and> p < length (heap st') \<and>
           heap st' ! p = PyUnicode (map of_char ''Hello World!'') \<and>
           map of_char ''Hello World!'' =
             [72, 101, 108, 108, 111, 32, 87, 111, 114, 108, 100, 33 :: nat]"
  using assms by (simp add: hello_eq greeting_def)

theorem hello_returns_greeting_witness:
  "0 < mem_free \<lparr>heap = [], mem_free = 1, world = ()\<rparr> \<and>
   (\<exists>p st'. hello None None \<lparr>heap = [], mem_free = 1, world = ()\<rparr> = (Inr p, st') \<and>
      p < length (heap st') \<and>
      heap st' ! p = PyUnicode [72, 101, 108, 108, 111, 32, 87, 111, 114, 108, 100, 33])"
  using hello_returns_greeting [of "\<lparr>heap = [], mem_free = 1, world = ()\<rparr>" None None]
  by simp

text \<open>With no memory left the call returns \<open>NULL\<close> with \<open>MemoryError\<close> set, not the string.\<close>

theorem hello_exhausted_counterexample:
  "hello None None \<lparr>heap = [], mem_free = 0, world = ()\<rparr> =
     (Inl MemoryError, \<lparr>heap = [], mem_free = 0, world = ()\<rparr>)"
  by (simp add: hello_eq)

subsection \<open>Repeated calls\<close>

text \<open>
  Claim C2, as amended. The claim says that any two invocations give identical results and
  that no invocation changes the outcome of a later one. Each successful call takes one
  object from the allocator, so a call can turn a later call's success into
  \<open>MemoryError\<close> (\<open>hello_second_call_counterexample\<close> below). What holds: when \<open>n\<close> calls
  are made in a row and the allocator has memory for \<open>n\<close> objects, there are \<open>n\<close> results,
  every one of them a reference to a \<open>str\<close> object holding the greeting; the references
  are pairwise different (each call makes a fresh object, equal in contents to the others),
  and the objects that existed before, like the rest of the program state, are as they
  were.
\<close>

theorem hello_calls_agree:
  assumes "n \<le> mem_free st" and "repeat_call n (hello self args) st = (rs, st')"
  shows "length rs = n \<and> distinct rs \<and>
         (\<forall>r \<in> set rs. \<exists>p. r = Inr p \<and> p < length (heap st') \<and> heap st' ! p = greeting) \<and>
         take (length (heap st)) (heap st') = heap st \<and> world st' = world st"
proof -
  from assms(2) repeat_call_hello [OF assms(1), of self args]
  have rs: "rs = map Inr [length (heap st) ..< length (heap st) + n]"
    and st': "st' = st\<lparr>heap := heap st @ replicate n greeting, mem_free := mem_free st - n\<rparr>"
    by simp_all
  have "distinct rs" unfolding rs by (simp add: distinct_map)
  moreover have "\<forall>r \<in> set rs. \<exists>p. r = Inr p \<and> p < length (heap st') \<and> heap st' ! p = greeting"
    unfolding rs st' by (auto simp: nth_append)
  ultimately show ?thesis by (simp add: rs st')
qed

theorem hello_calls_agree_witness:
  "fst (repeat_call 3 (hello None None) \<lparr>heap = [], mem_free = 3, world = ()\<rparr>) =
     [Inr 0, Inr 1, Inr 2] \<and>
   heap (snd (repeat_call 3 (hello None None) \<lparr>heap = [], mem_free = 3, world = ()\<rparr>)) =
     [greeting, greeting, greeting]"
  using hello_calls_agree [of 3 "\<lparr>heap = [], mem_free = 3, world = ()\<rparr>" None None
      "fst (repeat_call 3 (hello None None) \<lparr>heap = [], mem_free = 3, world = ()\<rparr>)"
      "snd (repeat_call 3 (hello None None) \<lparr>heap = [], mem_free = 3, world = ()\<rparr>)"]
  by (simp add: numeral_3_eq_3 hello_eq)

text \<open>
  Two calls with memory for one object: the first returns the greeting, the second fails.
\<close>

theorem hello_second_call_counterexample:
  "repeat_call 2 (hello None None) \<lparr>heap = [], mem_free = 1, world = ()\<rparr> =
     ([Inr 0, Inl MemoryError],
      \<lparr>heap = [PyUnicode [72, 101, 108, 108, 111, 32, 87, 111, 114, 108, 100, 33]],
       mem_free = 0, world = ()\<rparr>)"
  by (simp add: numeral_2_eq_2 hello_eq greeting_def)

subsection \<open>Effects\<close>

text \<open>
  Claim C3. A call of \<open>hello\<close> has no side effect: whatever the rest of the program state
  \<open>world\<close> is (globals, files, I/O channels), it is the same after the call; every object
  that existed before the call is unchanged; and the state after the call is either the
  state before it (when the call fails) or the state before it with the returned string,
  and nothing else, added to the heap.
\<close>

theorem hello_frame:
  assumes "hello self args st = (r, st')"
  shows "world st' = world st \<and> take (length (heap st)) (heap st') = heap st \<and>
         (case r of
            Inl e \<Rightarrow> st' = st
          | Inr p \<Rightarrow> p = length (heap st) \<and>
                     st' = st\<lparr>heap := heap st @ [greeting], mem_free := mem_free st - 1\<rparr>)"
  using assms by (auto simp: hello_eq split: if_splits)

theorem hello_frame_witness:
  "hello (Some 0) None \<lparr>heap = [PyModule ''m'' [] None], mem_free = 4, world = ''log''\<rparr> =
     (Inr 1, \<lparr>heap = [PyModule ''m'' [] None, greeting], mem_free = 3, world = ''log''\<rparr>) \<and>
   world (snd (hello (Some 0) None
      \<lparr>heap = [PyModule ''m'' [] None], mem_free = 4, world = ''log''\<rparr>)) = ''log''"
  using hello_frame [of "Some 0" None
      "\<lparr>heap = [PyModule ''m'' [] None], mem_free = 4, world = ''log''\<rparr>"
      "fst (hello (Some 0) None \<lparr>heap = [PyModule ''m'' [] None], mem_free = 4, world = ''log''\<rparr>)"
      "snd (hello (Some 0) None \<lparr>heap = [PyModule ''m'' [] None], mem_free = 4, world = ''log''\<rparr>)"]
  by (simp add: hello_eq)

subsection \<open>Failure\<close>

text \<open>
  Claim C4. \<open>hello\<close> has exactly one failure mode: it fails if and only if the allocation of
  the string fails. In that case the caller receives the allocator's \<open>MemoryError\<close> as it
  is (the \<open>NULL\<close> return and the error indicator are the result of the call), and the
  program state is the one before the call. When the allocation succeeds no error is
  possible: the call returns the object that was allocated.
\<close>

theorem hello_fails_iff_alloc_fails:
  "((\<exists>e. fst (hello self args st) = Inl e) = (py_alloc greeting st = None)) \<and>
   (py_alloc greeting st = None \<longrightarrow> hello self args st = (Inl MemoryError, st)) \<and>
   (py_alloc greeting st \<noteq> None \<longrightarrow>
      (\<exists>p st'. hello self args st = (Inr p, st') \<and> py_alloc greeting st = Some (p, st')))"
  by (simp add: hello_eq py_alloc_def)

theorem hello_fails_iff_alloc_fails_witness:
  "py_alloc greeting \<lparr>heap = [], mem_free = 0, world = ()\<rparr> = None \<and>
   hello None None \<lparr>heap = [], mem_free = 0, world = ()\<rparr> =
     (Inl MemoryError, \<lparr>heap = [], mem_free = 0, world = ()\<rparr>) \<and>
   py_alloc greeting \<lparr>heap = [], mem_free = 1, world = ()\<rparr> \<noteq> None \<and>
   fst (hello None None \<lparr>heap = [], mem_free = 1, world = ()\<rparr>) = Inr 0"
  using hello_fails_iff_alloc_fails [of None None "\<lparr>heap = [], mem_free = 0, world = ()\<rparr>"]
    hello_fails_iff_alloc_fails [of None None "\<lparr>heap = [], mem_free = 1, world = ()\<rparr>"]
  by (simp add: py_alloc_def)

subsection \<open>Arguments\<close>

text \<open>
  Claim C7. \<open>hello\<close> ignores its inputs: for all values of \<open>self\<close> and \<open>args\<close>, in the same
  state, it returns the same result and leaves the same state.
\<close>

theorem hello_ignores_arguments:
  "hello self args st = hello self' args' st"
  by (simp add: hello_def)

theorem hello_ignores_arguments_witness:
  "hello None None \<lparr>heap = [greeting], mem_free = 2, world = ()\<rparr> =
   hello (Some 0) (Some 7) \<lparr>heap = [greeting], mem_free = 2, world = ()\<rparr>"
  using hello_ignores_arguments [of None None "\<lparr>heap = [greeting], mem_free = 2, world = ()\<rparr>"
      "Some 0" "Some 7"]
  by simp

subsection \<open>Termination\<close>

text \<open>
  The body of \<open>hello\<close>, executed as a statement, computes what the function \<open>hello\<close>
  computes, with one unit of fuel. A body that calls itself has no result, whatever the
  fuel.
\<close>

lemma run_hello: "run body_of (Suc n) HELLO self args st = Some (hello self args st)"
  by (simp add: run_def hello_body_def hello_def split: prod.splits)

lemma run_body_of:
  "run body_of (Suc n) f self args st = Some (call_cfunc f self args st)"
  by (cases f) (simp add: run_hello)

lemma self_call_diverges:
  assumes "bodies f = Return (CallFn f ArgSelf ArgArgs)"
  shows "run bodies fuel f self args st = None"
proof -
  have "exec bodies n self args (Return (CallFn f ArgSelf ArgArgs)) st = None" for n
  proof (induction n)
    case 0
    show ?case by simp
  next
    case (Suc n)
    then show ?case by (simp add: assms)
  qed
  then show ?thesis by (simp add: run_def assms split: nat.splits)
qed

text \<open>
  Claim C8. Every invocation of \<open>hello\<close> terminates. Its body contains no loop, calls no
  function of the translation unit (so it cannot recurse) and makes one call of the API,
  to \<open>PyUnicode_FromString\<close>, which neither blocks nor suspends but returns a string or an
  error; executed with a single unit of fuel, or with more, the body returns for every
  \<open>self\<close>, \<open>args\<close> and state, and what it returns is the result of \<open>hello\<close>.
\<close>

theorem hello_terminates:
  "loop_free hello_body \<and> stmt_calls hello_body = [] \<and> stmt_api_calls hello_body = 1 \<and>
   run body_of (Suc n) HELLO self args st = Some (hello self args st)"
  by (simp add: run_hello) (simp add: hello_body_def)

theorem hello_terminates_witness:
  "run body_of 1 HELLO None None \<lparr>heap = [], mem_free = 0, world = ()\<rparr> =
     Some (Inl MemoryError, \<lparr>heap = [], mem_free = 0, world = ()\<rparr>) \<and>
   run body_of 1 HELLO (Some 3) (Some 4) \<lparr>heap = [], mem_free = 9, world = ()\<rparr> =
     Some (Inr 0, \<lparr>heap = [greeting], mem_free = 8, world = ()\<rparr>)"
  using hello_terminates [of 0 None None "\<lparr>heap = [], mem_free = 0, world = ()\<rparr>"]
    hello_terminates [of 0 "Some 3" "Some 4" "\<lparr>heap = [], mem_free = 9, world = ()\<rparr>"]
  by (simp add: hello_eq)

subsection \<open>Registration\<close>




lemma PyModuleDef_Init_frame:
  "mem (PyModuleDef_Init p rt) = mem rt"
  "package_context (PyModuleDef_Init p rt) = package_context rt"
  by (cases p; simp add: PyModuleDef_Init_def Let_def)+

lemma PyModuleDef_Init_hellomodule:
  assumes "hellomodule_var rt = hellomodule\<lparr>m_base := b\<rparr>"
  shows "\<exists>b'. hellomodule_var (PyModuleDef_Init ADDR_hellomodule rt) = hellomodule\<lparr>m_base := b'\<rparr> \<and>
              m_index b' \<noteq> 0 \<and> (m_index b \<noteq> 0 \<longrightarrow> b' = b)"
  using assms by (auto simp: PyModuleDef_Init_def Let_def hellomodule_def)

lemma resolve_frame:
  "mem (snd (resolve_package_context name rt)) = mem rt"
  "hellomodule_var (snd (resolve_package_context name rt)) = hellomodule_var rt"
  "last_module_index (snd (resolve_package_context name rt)) = last_module_index rt"
  by (simp_all add: resolve_package_context_def split: option.splits)

lemma resolve_name_Init:
  "fst (resolve_package_context name (PyModuleDef_Init p rt)) = fst (resolve_package_context name rt)"
  by (simp add: resolve_package_context_def PyModuleDef_Init_frame split: option.splits)



text \<open>What \<open>PyModule_New\<close> makes when the name is valid UTF-8.\<close>

lemma create_on_heap:
  assumes "utf8_decode (map of_char name) = Some cps"
  shows "PyModule_New host name st =
    (if mem_free st < 1 + module_blocks host then (Inl MemoryError, st)
     else (Inr (Suc (length (heap st))),
           st\<lparr>heap := heap st @
                 [PyUnicode cps,
                  PyModule name
                    [(''__name__'', Obj (length (heap st))), (''__doc__'', NoneObj),
                     (''__package__'', NoneObj), (''__loader__'', NoneObj),
                     (''__spec__'', NoneObj)] None],
              mem_free := mem_free st - (1 + module_blocks host)\<rparr>))"
  using assms
  by (auto simp: PyModule_New_def PyUnicode_FromString_def py_alloc_def py_alloc_blocks_def)

lemma PyInit_hello_eq:
  assumes var: "hellomodule_var rt = hellomodule\<lparr>m_base := b\<rparr>"
    and res: "resolve_package_context ''hello'' (PyModuleDef_Init ADDR_hellomodule rt) = (name, rt2)"
    and dec: "utf8_decode (map of_char name) = Some cps"
  shows "PyInit_hello host rt =
    (if mem_free (mem rt) < 1 + module_blocks host + function_blocks host
     then (Inl MemoryError, rt2)
     else (Inr (Suc (length (heap (mem rt)))),
           rt2\<lparr>mem := (mem rt)\<lparr>heap := heap (mem rt) @
                 [PyUnicode cps,
                  PyModule name
                    [(''__name__'', Obj (length (heap (mem rt)))), (''__doc__'', NoneObj),
                     (''__package__'', NoneObj), (''__loader__'', NoneObj),
                     (''__spec__'', NoneObj),
                     (''hello'', Obj (Suc (Suc (length (heap (mem rt))))))] None,
                  PyCFunction (hd HelloMethods) (Some (Suc (length (heap (mem rt)))))],
              mem_free := mem_free (mem rt) - (1 + module_blocks host + function_blocks host)\<rparr>\<rparr>))"
proof -
  from res have mem2: "mem rt2 = mem rt"
    using resolve_frame(1) [of "''hello''" "PyModuleDef_Init ADDR_hellomodule rt"]
    by (simp add: PyModuleDef_Init_frame)
  from PyModuleDef_Init_hellomodule [OF var] obtain b' where
    var': "hellomodule_var (PyModuleDef_Init ADDR_hellomodule rt) = hellomodule\<lparr>m_base := b'\<rparr>"
    by blast
  have fields: "m_name (hellomodule\<lparr>m_base := b'\<rparr>) = ''hello''"
    "m_size (hellomodule\<lparr>m_base := b'\<rparr>) = - 1"
    "m_doc (hellomodule\<lparr>m_base := b'\<rparr>) = None"
    "m_methods (hellomodule\<lparr>m_base := b'\<rparr>) = Some HelloMethods"
    by (simp_all add: hellomodule_def)
  show ?thesis
    unfolding PyInit_hello_def PyModule_Create_def
    by (auto simp: Let_def var' fields res mem2 create_on_heap [OF dec] HelloMethods_def
        py_alloc_blocks_def module_setattr_def nth_append list_update_append)
qed

lemma PyInit_hello_ok:
  assumes var: "hellomodule_var rt = hellomodule\<lparr>m_base := b\<rparr>"
    and mem: "1 + module_blocks host + function_blocks host \<le> mem_free (mem rt)"
    and dec: "utf8_decode (map of_char (fst (resolve_package_context ''hello'' rt))) = Some cps"
  shows "PyInit_hello host rt =
     (Inr (Suc (length (heap (mem rt)))),
      (snd (resolve_package_context ''hello'' (PyModuleDef_Init ADDR_hellomodule rt)))
        \<lparr>mem := (mem rt)\<lparr>heap := heap (mem rt) @
                 [PyUnicode cps,
                  PyModule (fst (resolve_package_context ''hello'' rt))
                    [(''__name__'', Obj (length (heap (mem rt)))), (''__doc__'', NoneObj),
                     (''__package__'', NoneObj), (''__loader__'', NoneObj),
                     (''__spec__'', NoneObj),
                     (''hello'', Obj (Suc (Suc (length (heap (mem rt))))))] None,
                  PyCFunction (hd HelloMethods) (Some (Suc (length (heap (mem rt)))))],
              mem_free := mem_free (mem rt) - (1 + module_blocks host + function_blocks host)\<rparr>\<rparr>)"
proof -
  obtain name rt2 where
    res: "resolve_package_context ''hello'' (PyModuleDef_Init ADDR_hellomodule rt) = (name, rt2)"
    by (cases "resolve_package_context ''hello'' (PyModuleDef_Init ADDR_hellomodule rt)")
  have name: "name = fst (resolve_package_context ''hello'' rt)"
    using res resolve_name_Init [of "''hello''" ADDR_hellomodule rt] by simp
  from dec have dec': "utf8_decode (map of_char name) = Some cps" by (simp add: name)
  show ?thesis
    using mem by (simp add: PyInit_hello_eq [OF var res dec'] res name)
qed

text \<open>The example states: loading the extension as a top-level module and from a package.\<close>

lemma fresh_runtime_simps:
  "hellomodule_var (fresh_runtime n ctx) = hellomodule\<lparr>m_base := PyModuleDef_HEAD_INIT\<rparr>"
  "mem (fresh_runtime n ctx) = \<lparr>heap = [], mem_free = n, world = ()\<rparr>"
  "package_context (fresh_runtime n ctx) = ctx"
  "last_module_index (fresh_runtime n ctx) = 0"
  by (simp_all add: fresh_runtime_def hellomodule_def)

lemma hello_name_decode:
  "utf8_decode (map of_char ''hello'') = Some (map of_char ''hello'')"
  "utf8_decode (map of_char ''hatchdemo.hello'') = Some (map of_char ''hatchdemo.hello'')"
  by simp_all

lemma resolve_fresh:
  "fst (resolve_package_context ''hello'' (fresh_runtime n None)) = ''hello''"
  "fst (resolve_package_context ''hello'' (fresh_runtime n (Some ''hatchdemo.hello''))) =
     ''hatchdemo.hello''"
  by (simp_all add: resolve_package_context_def fresh_runtime_simps)

lemma PyInit_hello_fresh:
  "PyInit_hello example_host (fresh_runtime 64 None) =
     (Inr 1,
      \<lparr>mem = loaded_state 59,
       hellomodule_var =
         hellomodule\<lparr>m_base := \<lparr>ob_type = Some PyModuleDef_Type, m_init = None, m_index = 1,
                                  m_copy = None\<rparr>\<rparr>,
       last_module_index = 1, package_context = None\<rparr>)"
  apply (subst PyInit_hello_ok [where b = PyModuleDef_HEAD_INIT and cps = "map of_char ''hello''"])
     apply (simp_all add: fresh_runtime_simps resolve_fresh hello_name_decode)
   apply (simp add: example_host_def)
  apply (simp add: fresh_runtime_def loaded_state_def example_host_def PyModuleDef_Init_def
      resolve_package_context_def hellomodule_def PyModuleDef_HEAD_INIT_def)
  done






subsection \<open>The calling convention\<close>




subsection \<open>One callable, no module state\<close>

text \<open>
  Claim C10, as amended. The claim says that no operation can create or depend on
  module-level mutable state. One does: \<open>PyInit_hello\<close> passes the address of the static
  variable \<open>hellomodule\<close> to \<open>PyModule_Create\<close>, which writes the module index into its
  header \<open>m_base\<close> (\<open>PyInit_hello_writes_header_counterexample\<close> below). What holds: the
  method table has exactly two entries, the entry named \<open>hello\<close>, which points to the C
  function \<open>hello\<close> and is registered with \<open>METH_NOARGS\<close>, and the all-\<open>NULL\<close> sentinel that
  ends it; the module definition refers to that table and gives \<open>-1\<close> as the size of the
  module state. So a module created from it (under the conditions of C5) holds exactly one
  built-in function, under the name \<open>hello\<close>, and has no state block. The only module-level
  data that changes is the header \<open>m_base\<close> of \<open>hellomodule\<close>: the first \<open>PyInit_hello\<close>
  gives it a module index, and a later one leaves it as it is. The function \<open>hello\<close>
  neither changes the module object (or any other existing object) nor depends on it:
  replacing the object at any address by any other leaves its result the same.
\<close>

theorem hello_module_one_callable_no_state:
  assumes var: "hellomodule_var rt = hellomodule\<lparr>m_base := b\<rparr>"
    and mem: "1 + module_blocks host + function_blocks host \<le> mem_free (mem rt)"
    and dec: "utf8_decode (map of_char (fst (resolve_package_context ''hello'' rt))) = Some cps"
  shows "length HelloMethods = 2 \<and>
         ml_name (HelloMethods ! 0) = Some ''hello'' \<and>
         ml_meth (HelloMethods ! 0) = Some HELLO \<and>
         ml_flags (HelloMethods ! 0) = METH_NOARGS \<and>
         HelloMethods ! 1 = \<lparr>ml_name = None, ml_meth = None, ml_flags = 0, ml_doc = None\<rparr> \<and>
         m_methods hellomodule = Some HelloMethods \<and>
         m_size hellomodule = - 1 \<and>
         (\<exists>m rt' name d f b'.
            PyInit_hello host rt = (Inr m, rt') \<and>
            heap (mem rt') ! m = PyModule name d None \<and>
            module_callables m (mem rt') = [''hello''] \<and>
            map_of d ''hello'' = Some (Obj f) \<and>
            heap (mem rt') ! f = PyCFunction (HelloMethods ! 0) (Some m) \<and>
            hellomodule_var rt' = hellomodule\<lparr>m_base := b'\<rparr> \<and>
            m_index b' \<noteq> 0 \<and> (m_index b \<noteq> 0 \<longrightarrow> b' = b)) \<and>
         (a < length (heap st) \<longrightarrow> heap (snd (hello self args st)) ! a = heap st ! a) \<and>
         fst (hello self args (st\<lparr>heap := (heap st)[a := obj]\<rparr>)) = fst (hello self args st)"
proof -
  let ?n = "length (heap (mem rt))"
  let ?name = "fst (resolve_package_context ''hello'' rt)"
  let ?d = "[(''__name__'', Obj ?n), (''__doc__'', NoneObj), (''__package__'', NoneObj),
             (''__loader__'', NoneObj), (''__spec__'', NoneObj), (''hello'', Obj (Suc (Suc ?n)))]"
  let ?st' = "(mem rt)\<lparr>heap := heap (mem rt) @
                 [PyUnicode cps, PyModule ?name ?d None,
                  PyCFunction (hd HelloMethods) (Some (Suc ?n))],
              mem_free := mem_free (mem rt) - (1 + module_blocks host + function_blocks host)\<rparr>"
  let ?rt' = "(snd (resolve_package_context ''hello'' (PyModuleDef_Init ADDR_hellomodule rt)))
                \<lparr>mem := ?st'\<rparr>"
  have init: "PyInit_hello host rt = (Inr (Suc ?n), ?rt')"
    by (rule PyInit_hello_ok [OF var mem dec])
  have mem': "mem ?rt' = ?st'" by simp
  have hd0: "HelloMethods ! 0 = hd HelloMethods" by (simp add: HelloMethods_def)
  have 1: "heap ?st' ! Suc ?n = PyModule ?name ?d None"
    and 2: "heap ?st' ! Suc (Suc ?n) = PyCFunction (HelloMethods ! 0) (Some (Suc ?n))"
    by (simp_all add: nth_append hd0)
  have 3: "module_callables (Suc ?n) ?st' = [''hello'']"
    by (simp add: module_callables_def is_builtin_def nth_append)
  have 4: "map_of ?d ''hello'' = Some (Obj (Suc (Suc ?n)))" by simp
  from PyModuleDef_Init_hellomodule [OF var] obtain b' where
    b': "hellomodule_var (PyModuleDef_Init ADDR_hellomodule rt) = hellomodule\<lparr>m_base := b'\<rparr>"
      "m_index b' \<noteq> 0" "m_index b \<noteq> 0 \<longrightarrow> b' = b"
    by blast
  have 5: "hellomodule_var ?rt' = hellomodule\<lparr>m_base := b'\<rparr>"
    by (simp add: resolve_frame b')
  have created: "\<exists>m rt' name d f b'.
            PyInit_hello host rt = (Inr m, rt') \<and>
            heap (mem rt') ! m = PyModule name d None \<and>
            module_callables m (mem rt') = [''hello''] \<and>
            map_of d ''hello'' = Some (Obj f) \<and>
            heap (mem rt') ! f = PyCFunction (HelloMethods ! 0) (Some m) \<and>
            hellomodule_var rt' = hellomodule\<lparr>m_base := b'\<rparr> \<and>
            m_index b' \<noteq> 0 \<and> (m_index b \<noteq> 0 \<longrightarrow> b' = b)"
    apply (rule exI [of _ "Suc ?n"], rule exI [of _ ?rt'], rule exI [of _ ?name],
        rule exI [of _ ?d], rule exI [of _ "Suc (Suc ?n)"], rule exI [of _ b'])
    unfolding mem'
    using init 1 2 3 4 5 b'(2,3) by blast
  have table: "length HelloMethods = 2" "ml_name (HelloMethods ! 0) = Some ''hello''"
    "ml_meth (HelloMethods ! 0) = Some HELLO" "ml_flags (HelloMethods ! 0) = METH_NOARGS"
    "HelloMethods ! 1 = \<lparr>ml_name = None, ml_meth = None, ml_flags = 0, ml_doc = None\<rparr>"
    "m_methods hellomodule = Some HelloMethods" "m_size hellomodule = - 1"
    by (simp_all add: HelloMethods_def hellomodule_def)
  have frame: "a < length (heap st) \<longrightarrow> heap (snd (hello self args st)) ! a = heap st ! a"
    "fst (hello self args (st\<lparr>heap := (heap st)[a := obj]\<rparr>)) = fst (hello self args st)"
    by (simp_all add: hello_eq nth_append)
  from table created frame show ?thesis by blast
qed

theorem hello_module_one_callable_no_state_witness:
  "fst (PyInit_hello example_host (fresh_runtime 64 None)) = Inr 1 \<and>
   module_callables 1 (mem (snd (PyInit_hello example_host (fresh_runtime 64 None)))) = [''hello''] \<and>
   heap (snd (hello (Some 1) None (loaded_state 59))) ! 1 = heap (loaded_state 59) ! 1"
proof -
  have var: "hellomodule_var (fresh_runtime 64 None) = hellomodule\<lparr>m_base := PyModuleDef_HEAD_INIT\<rparr>"
    by (simp add: fresh_runtime_simps)
  have mem: "1 + module_blocks example_host + function_blocks example_host
      \<le> mem_free (mem (fresh_runtime 64 None))"
    by (simp add: fresh_runtime_simps example_host_def)
  have dec: "utf8_decode (map of_char (fst (resolve_package_context ''hello'' (fresh_runtime 64 None))))
      = Some (map of_char ''hello'')"
    by (simp add: resolve_fresh)
  have callables: "module_callables 1 (loaded_state 59) = [''hello'']"
    by (simp add: module_callables_def is_builtin_def loaded_state_def)
  have kept: "heap (snd (hello (Some 1) None (loaded_state 59))) ! 1 = heap (loaded_state 59) ! 1"
    by (simp add: hello_eq loaded_state_def)
  from hello_module_one_callable_no_state [OF var mem dec, of 1 "loaded_state 59" "Some 1" None]
    callables kept
  show ?thesis
    by (simp add: PyInit_hello_fresh)
qed

text \<open>
  The first \<open>PyInit_hello\<close> of a process changes the static variable \<open>hellomodule\<close>: its
  module index is \<open>0\<close> before and \<open>1\<close> after.
\<close>

theorem PyInit_hello_writes_header_counterexample:
  "m_index (m_base (hellomodule_var (fresh_runtime 64 None))) = 0 \<and>
   m_index (m_base (hellomodule_var (snd (PyInit_hello example_host (fresh_runtime 64 None))))) = 1"
  by (simp add: PyInit_hello_fresh fresh_runtime_simps PyModuleDef_HEAD_INIT_def)

end
